theory Spec2Isabelle
  imports Complex_Main
begin

section \<open>Values exchanged with the authentication service\<close>

text \<open>
  The three scripts read the parsed body of an HTTP response (\<^verbatim>\<open>response.json()\<close>)
  and branch on its shape. A parsed body is a Python value built from \<^verbatim>\<open>None\<close>,
  \<^verbatim>\<open>bool\<close>, \<^verbatim>\<open>int\<close>, \<^verbatim>\<open>float\<close>, \<^verbatim>\<open>str\<close>, \<^verbatim>\<open>list\<close> and \<^verbatim>\<open>dict\<close> with string keys.
  A \<^verbatim>\<open>dict\<close> is kept as the list of its items; a lookup takes the first item with the
  key. A \<^verbatim>\<open>str\<close> is a \<open>string\<close> with one \<open>char\<close> for each character.
\<close>

datatype py_float = Finite rat | PosInf | NegInf | NaN

datatype json =
    JNull
  | JBool bool
  | JNum int
  | JFloat py_float
  | JStr string
  | JArr "json list"
  | JObj "(string \<times> json) list"

datatype py_type = TNone | TBool | TInt | TFloat | TStr | TList | TDict

datatype py_error = TypeError | KeyError | IndexError | AttributeError | JSONDecodeError

text \<open>\<^verbatim>\<open>type(v)\<close>\<close>

fun type_of :: "json \<Rightarrow> py_type" where
  "type_of JNull = TNone"
| "type_of (JBool b) = TBool"
| "type_of (JNum n) = TInt"
| "type_of (JFloat f) = TFloat"
| "type_of (JStr s) = TStr"
| "type_of (JArr xs) = TList"
| "type_of (JObj kvs) = TDict"

text \<open>\<^verbatim>\<open>isinstance(v, dict)\<close> and \<^verbatim>\<open>isinstance(v, list)\<close>\<close>

fun is_dict :: "json \<Rightarrow> bool" where
  "is_dict (JObj kvs) = True"
| "is_dict v = False"

fun is_list :: "json \<Rightarrow> bool" where
  "is_list (JArr xs) = True"
| "is_list v = False"

text \<open>Truth value of a Python value, as \<^verbatim>\<open>not v\<close> and \<^verbatim>\<open>if v\<close> test it.\<close>

fun truthy :: "json \<Rightarrow> bool" where
  "truthy JNull = False"
| "truthy (JBool b) = b"
| "truthy (JNum n) = (n \<noteq> 0)"
| "truthy (JFloat (Finite r)) = (r \<noteq> 0)"
| "truthy (JFloat f) = True"
| "truthy (JStr s) = (s \<noteq> [])"
| "truthy (JArr xs) = (xs \<noteq> [])"
| "truthy (JObj kvs) = (kvs \<noteq> [])"

text \<open>
  \<^verbatim>\<open>d.get(k, default)\<close> on the items of a dict, and \<^verbatim>\<open>d.get(k)\<close>, whose default is
  \<^verbatim>\<open>None\<close>. A key that is present with value \<^verbatim>\<open>null\<close> yields \<^verbatim>\<open>None\<close>, not the default.
\<close>

definition dict_get_default :: "(string \<times> json) list \<Rightarrow> string \<Rightarrow> json \<Rightarrow> json" where
  "dict_get_default d k dflt = (case map_of d k of None \<Rightarrow> dflt | Some v \<Rightarrow> v)"

definition dict_get :: "(string \<times> json) list \<Rightarrow> string \<Rightarrow> json" where
  "dict_get d k = dict_get_default d k JNull"

text \<open>\<^verbatim>\<open>len(v)\<close>: defined on strings, lists and dicts, a \<^verbatim>\<open>TypeError\<close> on the rest.\<close>

fun py_len :: "json \<Rightarrow> py_error + nat" where
  "py_len (JStr s) = Inr (length s)"
| "py_len (JArr xs) = Inr (length xs)"
| "py_len (JObj kvs) = Inr (length kvs)"
| "py_len v = Inl TypeError"

text \<open>
  \<^verbatim>\<open>v[0]\<close>. The keys of a parsed object are strings, so the integer key \<^verbatim>\<open>0\<close> is
  never among them and indexing a dict raises \<^verbatim>\<open>KeyError\<close>.
\<close>

fun py_first :: "json \<Rightarrow> py_error + json" where
  "py_first (JArr []) = Inl IndexError"
| "py_first (JArr (x # xs)) = Inr x"
| "py_first (JStr []) = Inl IndexError"
| "py_first (JStr (c # cs)) = Inr (JStr [c])"
| "py_first (JObj kvs) = Inl KeyError"
| "py_first v = Inl TypeError"

text \<open>
  The items a \<^verbatim>\<open>for\<close> loop over \<^verbatim>\<open>v\<close> visits: the elements of a list, the
  one-character strings of a string, the keys of a dict; the other values are not
  iterable.
\<close>

fun py_iter :: "json \<Rightarrow> py_error + json list" where
  "py_iter (JArr xs) = Inr xs"
| "py_iter (JStr s) = Inr (map (\<lambda>c. JStr [c]) s)"
| "py_iter (JObj kvs) = Inr (map (\<lambda>kv. JStr (fst kv)) kvs)"
| "py_iter v = Inl TypeError"

subsection \<open>HTTP exchanges\<close>

text \<open>
  A response as the scripts read it: \<^verbatim>\<open>response.status_code\<close>, \<^verbatim>\<open>response.text\<close> and
  the value of \<^verbatim>\<open>response.json()\<close>, which is absent when the body is not JSON and the
  call raises. Transport failures of the HTTP client, which raise before any response
  exists, are outside the model: every request is answered.
\<close>

record response =
  status_code :: int
  body_text :: string
  json_body :: "json option"

text \<open>
  An update call \<^verbatim>\<open>requests.put(f"{SUPABASE_URL}/auth/v1/admin/users/{user_id}",
  headers=headers, json=...)\<close>: the value interpolated as the last path segment, and
  the \<^verbatim>\<open>json\<close> argument. The headers are the same constants on every call.
\<close>

record request =
  path_user_id :: json
  body :: json

text \<open>
  The service answers the \<open>k\<close>-th update call of a run (counted from 0) with
  \<open>server k request\<close>; quantifying over \<open>server\<close> covers every behaviour of the
  service, also one that depends on the calls made before.
\<close>

type_synonym server = "nat \<Rightarrow> request \<Rightarrow> response"

subsection \<open>The clock and \<^verbatim>\<open>datetime.isoformat\<close>\<close>

record datetime =
  year :: nat
  month :: nat
  day :: nat
  hour :: nat
  minute :: nat
  second :: nat
  microsecond :: nat

text \<open>The ranges Python's \<^verbatim>\<open>datetime\<close> type keeps its fields in.\<close>

definition valid_datetime :: "datetime \<Rightarrow> bool" where
  "valid_datetime t \<longleftrightarrow>
     1 \<le> year t \<and> year t \<le> 9999 \<and> 1 \<le> month t \<and> month t \<le> 12 \<and>
     1 \<le> day t \<and> day t \<le> 31 \<and> hour t < 24 \<and> minute t < 60 \<and> second t < 60 \<and>
     microsecond t < 1000000"

definition digit_char :: "nat \<Rightarrow> char" where
  "digit_char d = char_of (48 + d)"

text \<open>The decimal digits of a number, most significant first.\<close>

fun dec :: "nat \<Rightarrow> string" where
  "dec n = (if n < 10 then [digit_char n] else dec (n div 10) @ [digit_char (n mod 10)])"

declare dec.simps [simp del]

text \<open>The format \<^verbatim>\<open>%0wd\<close>: decimal, padded on the left with zeros to width \<open>w\<close>.\<close>

definition zpad :: "nat \<Rightarrow> nat \<Rightarrow> string" where
  "zpad w n = replicate (w - length (dec n)) (CHR ''0'') @ dec n"

text \<open>
  \<^verbatim>\<open>t.isoformat()\<close> of a naive datetime: \<^verbatim>\<open>YYYY-MM-DDTHH:MM:SS\<close>, followed by
  \<^verbatim>\<open>.ffffff\<close> when the microsecond field is not zero.
\<close>

definition isoformat :: "datetime \<Rightarrow> string" where
  "isoformat t =
     zpad 4 (year t) @ ''-'' @ zpad 2 (month t) @ ''-'' @ zpad 2 (day t) @ ''T'' @
     zpad 2 (hour t) @ '':'' @ zpad 2 (minute t) @ '':'' @ zpad 2 (second t) @
     (if microsecond t = 0 then [] else ''.'' @ zpad 6 (microsecond t))"

text \<open>The \<open>k\<close>-th call of \<^verbatim>\<open>datetime.utcnow()\<close> in a run returns \<open>clock k\<close>.\<close>

type_synonym clock = "nat \<Rightarrow> datetime"

text \<open>
  Recognising a timestamp: a pattern is a list of positions, each a decimal digit or a
  fixed character, and a string matches when it has the pattern's length and fits it
  position by position.
\<close>

datatype pat = Digit | Lit char

definition is_digit :: "char \<Rightarrow> bool" where
  "is_digit c \<longleftrightarrow> (48::nat) \<le> of_char c \<and> of_char c \<le> (57::nat)"

fun matches :: "pat list \<Rightarrow> string \<Rightarrow> bool" where
  "matches [] [] = True"
| "matches (Digit # ps) (c # cs) = (is_digit c \<and> matches ps cs)"
| "matches (Lit x # ps) (c # cs) = (c = x \<and> matches ps cs)"
| "matches ps cs = False"

definition digits :: "nat \<Rightarrow> pat list" where
  "digits w = replicate w Digit"

definition date_time_pat :: "pat list" where
  "date_time_pat =
     digits 4 @ [Lit (CHR ''-'')] @ digits 2 @ [Lit (CHR ''-'')] @ digits 2 @ [Lit (CHR ''T'')] @
     digits 2 @ [Lit (CHR '':'')] @ digits 2 @ [Lit (CHR '':'')] @ digits 2"

text \<open>
  ISO 8601 extended format in UTC: \<^verbatim>\<open>YYYY-MM-DDTHH:MM:SSZ\<close> or
  \<^verbatim>\<open>YYYY-MM-DDTHH:MM:SS.ffffffZ\<close>.
\<close>

definition iso8601_utc :: "string \<Rightarrow> bool" where
  "iso8601_utc s \<longleftrightarrow>
     matches (date_time_pat @ [Lit (CHR ''Z'')]) s \<or>
     matches (date_time_pat @ [Lit (CHR ''.'')] @ digits 6 @ [Lit (CHR ''Z'')]) s"

section \<open>What a run does\<close>

text \<open>
  Every \<^verbatim>\<open>print\<close> of the scripts is one message, holding the values its f-string
  interpolates.
\<close>

datatype msg =
    Fetching
  | FetchFailed string
  | DebugResponseType py_type
  | DebugFirstItemType py_type
  | DebugKeys "string list"
  | FoundUsers nat
  | WarnUnexpectedUser json
  | Fixing json
  | Fixed json
  | FixFailed json string
  | AlreadyConfirmed json
  | BlankRule
  | SummaryTitle
  | SummaryFixed int
  | SummaryAlready int
  | SummaryErrors int
  | Rule
  | FixComplete
  | Resetting string
  | UnexpectedFormat py_type
  | UserNotFound string
  | FoundUserId json
  | ResetSuccess string
  | NewPassword string
  | LoginHint
  | HintEmail string
  | HintPassword string
  | ResetFailed string
  | Testing string
  | DebugStatus int
  | DebugResponse string
  | LoginSuccess
  | AccessToken json
  | UserId json
  | LoginFailed string

text \<open>
  A run ends by returning (\<open>Inr\<close>) or with an exception that nothing catches
  (\<open>Inl\<close>); until then it has printed \<open>stdout\<close> and issued the update calls
  \<open>updates\<close>, both in order.
\<close>

record 'a run =
  outcome :: "py_error + 'a"
  stdout :: "msg list"
  updates :: "request list"

text \<open>\<^verbatim>\<open>v.get(k, default)\<close> on any value: only a dict has the method.\<close>

fun py_get :: "json \<Rightarrow> string \<Rightarrow> json \<Rightarrow> py_error + json" where
  "py_get (JObj d) k dflt = Inr (dict_get_default d k dflt)"
| "py_get v k dflt = Inl AttributeError"

section \<open>The bulk-confirmation fixer, \<^verbatim>\<open>fix_auth.py\<close>\<close>

text \<open>The three counters of \<^verbatim>\<open>fix_email_confirmation\<close>, and the state of its loop.\<close>

record tally =
  fixed_count :: int
  already_confirmed :: int
  errors :: int

record fix_state = tally +
  printed :: "msg list"
  sent :: "request list"

text \<open>The shape handling of lines 40 to 45.\<close>

definition fetched_users :: "json \<Rightarrow> json" where
  "fetched_users data =
     (case data of
        JObj d \<Rightarrow> dict_get_default d ''users'' (JArr [])
      | JArr xs \<Rightarrow> data
      | _ \<Rightarrow> JArr [])"

text \<open>The debug output of lines 48 to 51.\<close>

definition debug_first_item :: "json \<Rightarrow> py_error + msg list" where
  "debug_first_item users =
     (if truthy users then
        (case py_len users of
           Inl e \<Rightarrow> Inl e
         | Inr n \<Rightarrow>
             if n > 0 then
               (case py_first users of
                  Inl e \<Rightarrow> Inl e
                | Inr first \<Rightarrow>
                    Inr (DebugFirstItemType (type_of first) #
                         (case first of JObj d \<Rightarrow> [DebugKeys (map fst d)] | _ \<Rightarrow> [])))
             else Inr [])
      else Inr [])"

text \<open>The update call of lines 75 to 81, sent at time \<open>now\<close>.\<close>

definition confirm_request :: "datetime \<Rightarrow> json \<Rightarrow> request" where
  "confirm_request now user_id =
     \<lparr>path_user_id = user_id,
      body = JObj [(''email_confirmed_at'', JStr (isoformat now @ ''Z''))]\<rparr>"

text \<open>
  One iteration of the loop of lines 60 to 91. The update call it may issue is the
  \<open>k\<close>-th of the run, \<open>k\<close> the number of calls issued before, and reads the clock
  for the \<open>k\<close>-th time.
\<close>

definition fix_user :: "server \<Rightarrow> clock \<Rightarrow> json \<Rightarrow> fix_state \<Rightarrow> fix_state" where
  "fix_user server clock user s =
     (case user of
        JObj d \<Rightarrow>
          (let email = dict_get_default d ''email'' (JStr ''unknown'');
               user_id = dict_get d ''id'';
               email_confirmed = dict_get d ''email_confirmed_at''
           in if \<not> truthy email_confirmed then
                (let k = length (sent s);
                     req = confirm_request (clock k) user_id;
                     update_response = server k req
                 in if status_code update_response = 200 then
                      s\<lparr>fixed_count := fixed_count s + 1,
                        printed := printed s @ [Fixing email, Fixed email],
                        sent := sent s @ [req]\<rparr>
                    else
                      s\<lparr>errors := errors s + 1,
                        printed := printed s @
                          [Fixing email, FixFailed email (body_text update_response)],
                        sent := sent s @ [req]\<rparr>)
              else
                s\<lparr>already_confirmed := already_confirmed s + 1,
                  printed := printed s @ [AlreadyConfirmed email]\<rparr>)
      | _ \<Rightarrow> s\<lparr>printed := printed s @ [WarnUnexpectedUser user]\<rparr>)"

fun fix_users :: "server \<Rightarrow> clock \<Rightarrow> json list \<Rightarrow> fix_state \<Rightarrow> fix_state" where
  "fix_users server clock [] s = s"
| "fix_users server clock (user # rest) s =
     fix_users server clock rest (fix_user server clock user s)"

text \<open>
  The state at the head of the loop: the counters of lines 55 to 57, what has been
  printed so far, and no update call yet.
\<close>

definition counters_zero :: "msg list \<Rightarrow> fix_state" where
  "counters_zero out =
     \<lparr>fixed_count = 0, already_confirmed = 0, errors = 0, printed = out, sent = []\<rparr>"

text \<open>The summary of lines 93 to 100.\<close>

definition summary :: "fix_state \<Rightarrow> msg list" where
  "summary s =
     [BlankRule, SummaryTitle, SummaryFixed (fixed_count s),
      SummaryAlready (already_confirmed s)] @
     (if errors s > 0 then [SummaryErrors (errors s)] else []) @
     [Rule, FixComplete]"

text \<open>
  \<^verbatim>\<open>fix_email_confirmation()\<close>, given the response to the list call, the service
  answering the update calls, and the clock. The Python function returns nothing; the
  value of the run is the three counters as they stand when it returns, and \<open>None\<close>
  on the early return of line 34, which comes before they are assigned.
\<close>

definition fix_email_confirmation :: "response \<Rightarrow> server \<Rightarrow> clock \<Rightarrow> tally option run" where
  "fix_email_confirmation response server clock =
     (if status_code response \<noteq> 200 then
        \<lparr>outcome = Inr None,
         stdout = [Fetching, FetchFailed (body_text response)],
         updates = []\<rparr>
      else
        (case json_body response of
           None \<Rightarrow> \<lparr>outcome = Inl JSONDecodeError, stdout = [Fetching], updates = []\<rparr>
         | Some data \<Rightarrow>
             (let users = fetched_users data;
                  out = [Fetching, DebugResponseType (type_of data)]
              in case debug_first_item users of
                   Inl e \<Rightarrow> \<lparr>outcome = Inl e, stdout = out, updates = []\<rparr>
                 | Inr dbg \<Rightarrow>
                     (case py_len users of
                        Inl e \<Rightarrow> \<lparr>outcome = Inl e, stdout = out @ dbg, updates = []\<rparr>
                      | Inr n \<Rightarrow>
                          (case py_iter users of
                             Inl e \<Rightarrow>
                               \<lparr>outcome = Inl e, stdout = out @ dbg @ [FoundUsers n],
                                updates = []\<rparr>
                           | Inr items \<Rightarrow>
                               (let s = fix_users server clock items
                                      (counters_zero (out @ dbg @ [FoundUsers n]))
                                in \<lparr>outcome = Inr (Some (tally.truncate s)),
                                    stdout = printed s @ summary s,
                                    updates = sent s\<rparr>))))))"

section \<open>The password reset tool, \<^verbatim>\<open>reset_password.py\<close>\<close>

text \<open>
  The shape handling of lines 38 to 44; \<open>None\<close> is the branch that prints the
  format error and returns.
\<close>

definition listed_users :: "json \<Rightarrow> json option" where
  "listed_users data =
     (case data of
        JObj d \<Rightarrow> Some (dict_get_default d ''users'' (JArr []))
      | JArr xs \<Rightarrow> Some data
      | _ \<Rightarrow> None)"

text \<open>
  The test of line 49, \<^verbatim>\<open>isinstance(user, dict) and user.get('email') == email\<close>.
  The target is a string, so the record's value equals it only when it is the same
  string.
\<close>

fun email_matches :: "string \<Rightarrow> json \<Rightarrow> bool" where
  "email_matches email (JObj d) = (dict_get d ''email'' = JStr email)"
| "email_matches email v = False"

text \<open>The scan of lines 47 to 51; \<open>JNull\<close> is \<^verbatim>\<open>target_user = None\<close>.\<close>

fun find_target :: "string \<Rightarrow> json list \<Rightarrow> json" where
  "find_target email [] = JNull"
| "find_target email (user # rest) =
     (if email_matches email user then user else find_target email rest)"

text \<open>The update call of lines 61 to 67.\<close>

definition password_request :: "json \<Rightarrow> string \<Rightarrow> request" where
  "password_request user_id new_password =
     \<lparr>path_user_id = user_id, body = JObj [(''password'', JStr new_password)]\<rparr>"

definition reset_report :: "string \<Rightarrow> string \<Rightarrow> response \<Rightarrow> msg list" where
  "reset_report email new_password update_response =
     (if status_code update_response = 200 then
        [ResetSuccess email, NewPassword new_password, LoginHint, HintEmail email,
         HintPassword new_password]
      else [ResetFailed (body_text update_response)])"

definition reset_password :: "string \<Rightarrow> string \<Rightarrow> response \<Rightarrow> server \<Rightarrow> unit run" where
  "reset_password email new_password response server =
     (if status_code response \<noteq> 200 then
        \<lparr>outcome = Inr (),
         stdout = [Resetting email, FetchFailed (body_text response)],
         updates = []\<rparr>
      else
        (case json_body response of
           None \<Rightarrow> \<lparr>outcome = Inl JSONDecodeError, stdout = [Resetting email], updates = []\<rparr>
         | Some data \<Rightarrow>
             (case listed_users data of
                None \<Rightarrow>
                  \<lparr>outcome = Inr (),
                   stdout = [Resetting email, UnexpectedFormat (type_of data)],
                   updates = []\<rparr>
              | Some users \<Rightarrow>
                  (case py_iter users of
                     Inl e \<Rightarrow> \<lparr>outcome = Inl e, stdout = [Resetting email], updates = []\<rparr>
                   | Inr items \<Rightarrow>
                       (let target_user = find_target email items
                        in if \<not> truthy target_user then
                             \<lparr>outcome = Inr (),
                              stdout = [Resetting email, UserNotFound email],
                              updates = []\<rparr>
                           else
                             (case py_get target_user ''id'' JNull of
                                Inl e \<Rightarrow>
                                  \<lparr>outcome = Inl e, stdout = [Resetting email], updates = []\<rparr>
                              | Inr user_id \<Rightarrow>
                                  (let req = password_request user_id new_password;
                                       update_response = server 0 req
                                   in \<lparr>outcome = Inr (),
                                       stdout = [Resetting email, FoundUserId user_id] @
                                         reset_report email new_password update_response,
                                       updates = [req]\<rparr>)))))))"

section \<open>The login smoke test, \<^verbatim>\<open>test_login_direct.py\<close>\<close>

text \<open>
  \<^verbatim>\<open>v[:50]\<close>: the first 50 items of a string or a list. The other values cannot be
  sliced and raise (a dict with \<^verbatim>\<open>TypeError\<close> up to Python 3.11 and with
  \<^verbatim>\<open>KeyError\<close> since).
\<close>

fun py_slice50 :: "json \<Rightarrow> py_error + json" where
  "py_slice50 (JStr s) = Inr (JStr (take 50 s))"
| "py_slice50 (JArr xs) = Inr (JArr (take 50 xs))"
| "py_slice50 v = Inl TypeError"

text \<open>
  \<^verbatim>\<open>test_login(email, password)\<close>, given the response of the token endpoint to the
  posted credentials.
\<close>

definition test_login :: "string \<Rightarrow> string \<Rightarrow> response \<Rightarrow> bool run" where
  "test_login email password response =
     (let out = [Testing email, DebugStatus (status_code response),
                 DebugResponse (body_text response)]
      in if status_code response = 200 then
           (case json_body response of
              None \<Rightarrow> \<lparr>outcome = Inl JSONDecodeError, stdout = out, updates = []\<rparr>
            | Some data \<Rightarrow>
                (case py_get data ''access_token'' (JStr ''N/A'') of
                   Inl e \<Rightarrow> \<lparr>outcome = Inl e, stdout = out @ [LoginSuccess], updates = []\<rparr>
                 | Inr token \<Rightarrow>
                     (case py_slice50 token of
                        Inl e \<Rightarrow>
                          \<lparr>outcome = Inl e, stdout = out @ [LoginSuccess], updates = []\<rparr>
                      | Inr shown \<Rightarrow>
                          (case py_get data ''user'' (JObj []) of
                             Inl e \<Rightarrow>
                               \<lparr>outcome = Inl e,
                                stdout = out @ [LoginSuccess, AccessToken shown],
                                updates = []\<rparr>
                           | Inr user \<Rightarrow>
                               (case py_get user ''id'' (JStr ''N/A'') of
                                  Inl e \<Rightarrow>
                                    \<lparr>outcome = Inl e,
                                     stdout = out @ [LoginSuccess, AccessToken shown],
                                     updates = []\<rparr>
                                | Inr uid \<Rightarrow>
                                    \<lparr>outcome = Inr True,
                                     stdout = out @
                                       [LoginSuccess, AccessToken shown, UserId uid],
                                     updates = []\<rparr>)))))
         else
           \<lparr>outcome = Inr False,
            stdout = out @ [LoginFailed (body_text response)],
            updates = []\<rparr>)"

section \<open>Vocabulary of the properties\<close>

text \<open>
  A record of the fetched list is \<^emph>\<open>unconfirmed\<close> when it is a mapping whose
  \<^verbatim>\<open>email_confirmed_at\<close> field is absent, \<^verbatim>\<open>null\<close> or empty (any value Python
  takes for false), and \<^emph>\<open>confirmed\<close> when it is a mapping with a non-empty field.
\<close>

fun unconfirmed :: "json \<Rightarrow> bool" where
  "unconfirmed (JObj d) = (\<not> truthy (dict_get d ''email_confirmed_at''))"
| "unconfirmed v = False"

fun confirmed :: "json \<Rightarrow> bool" where
  "confirmed (JObj d) = truthy (dict_get d ''email_confirmed_at'')"
| "confirmed v = False"

text \<open>The identifier of a record, \<^verbatim>\<open>None\<close> when it has none.\<close>

fun record_id :: "json \<Rightarrow> json" where
  "record_id (JObj d) = dict_get d ''id''"
| "record_id v = JNull"

text \<open>The records named by the warnings of line 68 among some printed messages.\<close>

fun warned :: "msg list \<Rightarrow> json list" where
  "warned [] = []"
| "warned (WarnUnexpectedUser u # ms) = u # warned ms"
| "warned (m # ms) = warned ms"

text \<open>The count of a list as a Python integer.\<close>

definition count :: "('a \<Rightarrow> bool) \<Rightarrow> 'a list \<Rightarrow> int" where
  "count P xs = int (length (filter P xs))"

text \<open>Services and clocks for the examples.\<close>

definition accepting :: server where
  "accepting k req = \<lparr>status_code = 200, body_text = ''{}'', json_body = Some (JObj [])\<rparr>"

definition rejecting :: server where
  "rejecting k req = \<lparr>status_code = 422, body_text = ''invalid'', json_body = None\<rparr>"

definition noon :: clock where
  "noon k = \<lparr>year = 2025, month = 10, day = 1, hour = 12, minute = 0, second = k mod 60,
             microsecond = 0\<rparr>"

definition listing :: "json \<Rightarrow> response" where
  "listing data = \<lparr>status_code = 200, body_text = [], json_body = Some data\<rparr>"

text \<open>
  The list of two users of the specification's example, and a list with a stray entry,
  a record without identifier, a confirmed record and a record without email.
\<close>

definition two_users :: "json list" where
  "two_users =
     [JObj [(''id'', JStr ''u1''), (''email'', JStr ''a@x.com''), (''email_confirmed_at'', JNull)],
      JObj [(''id'', JStr ''u2''), (''email'', JStr ''b@x.com''),
            (''email_confirmed_at'', JStr ''2024-01-01T00:00:00Z'')]]"

definition odd_users :: "json list" where
  "odd_users =
     [JStr ''stray'',
      JObj [(''email'', JStr ''a@x.com'')],
      JObj [(''id'', JStr ''u2''), (''email'', JStr ''b@x.com''),
            (''email_confirmed_at'', JStr ''2024-01-01T00:00:00Z'')],
      JObj [(''id'', JStr ''u3'')]]"

text \<open>Two records with the same email.\<close>

definition twins :: "json list" where
  "twins =
     [JObj [(''id'', JStr ''u1''), (''email'', JStr ''a@x.com'')],
      JObj [(''id'', JStr ''u2''), (''email'', JStr ''a@x.com'')]]"

text \<open>
  The answers of the token endpoint. On success it answers with status 200 and a body
  that is an object with the access token, a string, under \<^verbatim>\<open>access_token\<close> and the
  authenticated user, an object with its \<^verbatim>\<open>id\<close>, under \<^verbatim>\<open>user\<close>; a failed login is
  answered with another status.
\<close>

fun success_body :: "json option \<Rightarrow> bool" where
  "success_body (Some (JObj d)) =
     ((case map_of d ''access_token'' of Some (JStr token) \<Rightarrow> True | _ \<Rightarrow> False) \<and>
      (case map_of d ''user'' of Some (JObj u) \<Rightarrow> map_of u ''id'' \<noteq> None | _ \<Rightarrow> False))"
| "success_body b = False"

definition token_response :: "response \<Rightarrow> bool" where
  "token_response r \<longleftrightarrow> status_code r \<noteq> 200 \<or> success_body (json_body r)"

text \<open>A successful and a failed login.\<close>

definition logged_in :: response where
  "logged_in =
     \<lparr>status_code = 200, body_text = ''{...}'',
      json_body = Some (JObj [(''access_token'', JStr ''eyJhbGciOi''),
                              (''user'', JObj [(''id'', JStr ''u1'')])])\<rparr>"

definition refused :: response where
  "refused =
     \<lparr>status_code = 400, body_text = ''invalid_grant'',
      json_body = Some (JObj [(''error'', JStr ''invalid_grant'')])\<rparr>"

section \<open>Timestamps\<close>

lemma is_digit_digit_char: "d < 10 \<Longrightarrow> is_digit (digit_char d)"
  by (simp add: is_digit_def digit_char_def)

lemma is_digit_zero: "is_digit (CHR ''0'')"
  by (simp add: is_digit_def)

lemma dec_digits: "list_all is_digit (dec n)"
proof (induction n rule: dec.induct)
  case (1 n)
  show ?case
  proof (cases "n < 10")
    case True
    then show ?thesis by (subst dec.simps) (simp add: is_digit_digit_char)
  next
    case False
    with 1 show ?thesis by (subst dec.simps) (simp add: is_digit_digit_char)
  qed
qed

lemma dec_length: "n < 10 ^ w \<Longrightarrow> 0 < w \<Longrightarrow> length (dec n) \<le> w"
proof (induction w arbitrary: n)
  case 0
  then show ?case by simp
next
  case (Suc w)
  show ?case
  proof (cases "n < 10")
    case True
    then show ?thesis by (subst dec.simps) simp
  next
    case False
    with Suc.prems have w: "0 < w" by (cases w) auto
    from Suc.prems have "n div 10 < 10 ^ w"
      by (simp add: less_mult_imp_div_less mult.commute)
    with Suc.IH w have "length (dec (n div 10)) \<le> w" by blast
    with False show ?thesis by (subst dec.simps) simp
  qed
qed

lemma matches_digits: "list_all is_digit s \<Longrightarrow> matches (digits (length s)) s"
  by (induction s) (simp_all add: digits_def)

lemma matches_append:
  "matches p s \<Longrightarrow> matches q t \<Longrightarrow> matches (p @ q) (s @ t)"
  by (induction p s rule: matches.induct) simp_all

lemma zpad_matches: "n < 10 ^ w \<Longrightarrow> 0 < w \<Longrightarrow> matches (digits w) (zpad w n)"
proof -
  assume a: "n < 10 ^ w" "0 < w"
  then have l: "length (dec n) \<le> w" by (rule dec_length)
  have "list_all is_digit (zpad w n)"
    using dec_digits [of n] by (auto simp: zpad_def is_digit_zero list_all_iff)
  moreover have "length (zpad w n) = w" using l by (simp add: zpad_def)
  ultimately show ?thesis using matches_digits by metis
qed

lemma matches_lit: "matches [Lit c] [c]"
  by simp

lemma isoformat_iso8601:
  assumes "valid_datetime t"
  shows "iso8601_utc (isoformat t @ ''Z'')"
proof -
  let ?secs = "zpad 4 (year t) @ ''-'' @ zpad 2 (month t) @ ''-'' @ zpad 2 (day t) @ ''T'' @
      zpad 2 (hour t) @ '':'' @ zpad 2 (minute t) @ '':'' @ zpad 2 (second t)"
  from assms have y: "matches (digits 4) (zpad 4 (year t))"
    and mo: "matches (digits 2) (zpad 2 (month t))"
    and d: "matches (digits 2) (zpad 2 (day t))"
    and h: "matches (digits 2) (zpad 2 (hour t))"
    and mi: "matches (digits 2) (zpad 2 (minute t))"
    and s: "matches (digits 2) (zpad 2 (second t))"
    and us: "matches (digits 6) (zpad 6 (microsecond t))"
    by (simp_all add: valid_datetime_def zpad_matches)
  have dt: "matches date_time_pat ?secs"
    unfolding date_time_pat_def
    by (intro matches_append y mo d h mi s matches_lit)
  show ?thesis
  proof (cases "microsecond t = 0")
    case True
    have "matches (date_time_pat @ [Lit (CHR ''Z'')]) (?secs @ ''Z'')"
      by (intro matches_append dt matches_lit)
    with True show ?thesis by (simp add: iso8601_utc_def isoformat_def)
  next
    case False
    have "matches (date_time_pat @ [Lit (CHR ''.'')] @ digits 6 @ [Lit (CHR ''Z'')])
       (?secs @ ''.'' @ zpad 6 (microsecond t) @ ''Z'')"
      by (intro matches_append dt us matches_lit)
    with False show ?thesis by (simp add: iso8601_utc_def isoformat_def)
  qed
qed

section \<open>The loop of the fixer\<close>

text \<open>
  On a confirmation field of the service's type, a string or \<^verbatim>\<open>null\<close>, the
  unconfirmed records are those where the field is absent, \<^verbatim>\<open>null\<close> or the empty
  string.
\<close>

lemma unconfirmed_string_field:
  assumes "map_of d ''email_confirmed_at'' = None \<or>
           map_of d ''email_confirmed_at'' = Some JNull \<or>
           (\<exists>s. map_of d ''email_confirmed_at'' = Some (JStr s))"
  shows "unconfirmed (JObj d) \<longleftrightarrow>
           map_of d ''email_confirmed_at'' \<in> {None, Some JNull, Some (JStr [])}"
  using assms by (auto simp: dict_get_def dict_get_default_def)

lemma confirmed_iff: "confirmed u \<longleftrightarrow> is_dict u \<and> \<not> unconfirmed u"
  by (cases u) simp_all

lemma fix_user_sent:
  "sent (fix_user server clock user s) =
     sent s @ (if unconfirmed user
               then [confirm_request (clock (length (sent s))) (record_id user)] else [])"
  by (cases user) (simp_all add: fix_user_def Let_def)

lemma fix_user_tally:
  "fixed_count (fix_user server clock user s) + already_confirmed (fix_user server clock user s) +
     errors (fix_user server clock user s) =
   fixed_count s + already_confirmed s + errors s + (if is_dict user then 1 else 0)"
  by (cases user) (simp_all add: fix_user_def Let_def)

lemma warned_append: "warned (ms @ ns) = warned ms @ warned ns"
  by (induction ms rule: warned.induct) simp_all

lemma fix_user_warned:
  "warned (printed (fix_user server clock user s)) =
     warned (printed s) @ (if is_dict user then [] else [user])"
  by (cases user) (simp_all add: fix_user_def Let_def warned_append)

lemma fix_users_append:
  "fix_users server clock (xs @ ys) s = fix_users server clock ys (fix_users server clock xs s)"
  by (induction xs arbitrary: s) simp_all

lemma fix_users_tally:
  "fixed_count (fix_users server clock xs s) + already_confirmed (fix_users server clock xs s) +
     errors (fix_users server clock xs s) =
   fixed_count s + already_confirmed s + errors s + count is_dict xs"
  by (induction xs arbitrary: s) (simp_all add: fix_user_tally count_def)

lemma fix_users_warned:
  "warned (printed (fix_users server clock xs s)) =
     warned (printed s) @ filter (\<lambda>u. \<not> is_dict u) xs"
  by (induction xs arbitrary: s) (simp_all add: fix_user_warned)

text \<open>
  The update calls of the loop: one for each unconfirmed record, in the order of the
  list, each stamped with the next reading of the clock.
\<close>

lemma fix_users_sent:
  "sent (fix_users server clock xs s) =
     sent s @ map (\<lambda>(k, u). confirm_request (clock (length (sent s) + k)) (record_id u))
                (enumerate 0 (filter unconfirmed xs))"
proof (induction xs arbitrary: s)
  case Nil
  then show ?case by simp
next
  case (Cons x xs)
  show ?case
  proof (cases "unconfirmed x")
    case True
    then show ?thesis
      by (simp add: Cons.IH fix_user_sent enumerate_Suc_eq [of 0] split_def)
  next
    case False
    then show ?thesis by (simp add: Cons.IH fix_user_sent)
  qed
qed

lemma debug_first_item_list:
  "\<exists>dbg. debug_first_item (JArr users) = Inr dbg \<and> warned dbg = []"
  by (cases users) (auto simp: debug_first_item_def split: json.splits)

text \<open>On a fetched list the run reaches the loop and ends with the summary.\<close>

lemma fix_run_list:
  assumes "status_code response = 200" and "json_body response = Some data"
    and "fetched_users data = JArr users"
  shows "\<exists>dbg. warned dbg = [] \<and>
           fix_email_confirmation response server clock =
             (let s = fix_users server clock users
                        (counters_zero ([Fetching, DebugResponseType (type_of data)] @ dbg @
                                        [FoundUsers (length users)]))
              in \<lparr>outcome = Inr (Some (tally.truncate s)),
                  stdout = printed s @ summary s,
                  updates = sent s\<rparr>)"
proof -
  obtain dbg where dbg: "debug_first_item (JArr users) = Inr dbg" and quiet: "warned dbg = []"
    using debug_first_item_list by blast
  from assms dbg have "fix_email_confirmation response server clock =
      (let s = fix_users server clock users
                 (counters_zero ([Fetching, DebugResponseType (type_of data)] @ dbg @
                                 [FoundUsers (length users)]))
       in \<lparr>outcome = Inr (Some (tally.truncate s)),
           stdout = printed s @ summary s,
           updates = sent s\<rparr>)"
    by (simp add: fix_email_confirmation_def Let_def)
  with quiet show ?thesis by blast
qed

lemma fix_run_updates:
  assumes "status_code response = 200" and "json_body response = Some data"
    and "fetched_users data = JArr users"
  shows "updates (fix_email_confirmation response server clock) =
           map (\<lambda>(k, u). confirm_request (clock k) (record_id u))
               (enumerate 0 (filter unconfirmed users))"
  using fix_run_list [OF assms, of server clock]
  by (auto simp: Let_def fix_users_sent counters_zero_def)

lemma fix_run_tally:
  assumes "status_code response = 200" and "json_body response = Some data"
    and "fetched_users data = JArr users"
  shows "\<exists>t. outcome (fix_email_confirmation response server clock) = Inr (Some t) \<and>
           fixed_count t + already_confirmed t + errors t = count is_dict users"
  using fix_run_list [OF assms, of server clock] fix_users_tally [of server clock users]
  by (auto simp: Let_def counters_zero_def tally.truncate_def)

lemma warned_summary: "warned (summary s) = []"
  by (simp add: summary_def)

lemma fix_run_warned:
  assumes "status_code response = 200" and "json_body response = Some data"
    and "fetched_users data = JArr users"
  shows "warned (stdout (fix_email_confirmation response server clock)) =
           filter (\<lambda>u. \<not> is_dict u) users"
  using fix_run_list [OF assms, of server clock]
  by (auto simp: Let_def counters_zero_def warned_append warned_summary fix_users_warned)

lemma nth_enumerated_filter:
  assumes "P u"
  shows "length (filter P pre) < length (map f (enumerate 0 (filter P (pre @ u # post)))) \<and>
         map f (enumerate 0 (filter P (pre @ u # post))) ! length (filter P pre) =
           f (length (filter P pre), u)"
  using assms by (simp add: nth_enumerate_eq nth_append)

lemma fix_users_printed: "set (printed s) \<subseteq> set (printed (fix_users server clock xs s))"
proof (induction xs arbitrary: s)
  case Nil
  then show ?case by simp
next
  case (Cons x xs)
  have "set (printed s) \<subseteq> set (printed (fix_user server clock x s))"
    by (cases x) (auto simp: fix_user_def Let_def)
  with Cons.IH [of "fix_user server clock x s"] show ?case by auto
qed

lemma fix_user_reports:
  "(if unconfirmed (JObj d) then Fixing (dict_get_default d ''email'' (JStr ''unknown''))
    else AlreadyConfirmed (dict_get_default d ''email'' (JStr ''unknown'')))
   \<in> set (printed (fix_user server clock (JObj d) s))"
  by (simp add: fix_user_def Let_def)

lemma fix_run_reports:
  assumes "status_code response = 200" and "json_body response = Some data"
    and "fetched_users data = JArr (pre @ JObj d # post)"
  shows "(if unconfirmed (JObj d) then Fixing (dict_get_default d ''email'' (JStr ''unknown''))
          else AlreadyConfirmed (dict_get_default d ''email'' (JStr ''unknown'')))
         \<in> set (stdout (fix_email_confirmation response server clock))"
proof -
  let ?m = "if unconfirmed (JObj d) then Fixing (dict_get_default d ''email'' (JStr ''unknown''))
          else AlreadyConfirmed (dict_get_default d ''email'' (JStr ''unknown''))"
  have "?m \<in> set (printed (fix_users server clock (pre @ JObj d # post) s))" for s
    using fix_user_reports [of d server clock "fix_users server clock pre s"]
      fix_users_printed
        [of "fix_user server clock (JObj d) (fix_users server clock pre s)" server clock post]
    by (auto simp only: fix_users_append fix_users.simps)
  with fix_run_list [OF assms, of server clock] show ?thesis
    by (auto simp: Let_def simp del: unconfirmed.simps)
qed

text \<open>
  The calls of a list, record by record: the record at position \<open>i\<close> gets a call
  when it satisfies \<open>P\<close>, numbered by the records before it that do.
\<close>

lemma per_record_calls:
  "map (\<lambda>(k, u). f k u) (enumerate 0 (filter P xs)) =
     concat (map (\<lambda>(i, u). if P u then [f (length (filter P (take i xs))) u] else [])
                 (enumerate 0 xs))"
proof (induction xs rule: rev_induct)
  case Nil
  then show ?case by simp
next
  case (snoc x xs)
  have same: "map (\<lambda>(i, u). if P u then [f (length (filter P (take i (xs @ [x])))) u] else [])
                (enumerate 0 xs) =
              map (\<lambda>(i, u). if P u then [f (length (filter P (take i xs))) u] else [])
                (enumerate 0 xs)"
    by (rule map_cong) (auto simp: in_set_enumerate_eq)
  show ?case
    by (simp add: enumerate_append_eq same snoc.IH [symmetric])
qed

text \<open>
  The example of the specification: the listing of two users, the first unconfirmed,
  gives one update call and the counters 1, 1 and 0.
\<close>

lemma specification_example:
  "fix_email_confirmation (listing (JObj [(''users'', JArr two_users)])) accepting noon =
     \<lparr>outcome = Inr (Some \<lparr>fixed_count = 1, already_confirmed = 1, errors = 0\<rparr>),
      stdout = [Fetching, DebugResponseType TDict, DebugFirstItemType TDict,
                DebugKeys [''id'', ''email'', ''email_confirmed_at''], FoundUsers 2,
                Fixing (JStr ''a@x.com''), Fixed (JStr ''a@x.com''),
                AlreadyConfirmed (JStr ''b@x.com''), BlankRule, SummaryTitle, SummaryFixed 1,
                SummaryAlready 1, Rule, FixComplete],
      updates = [\<lparr>path_user_id = JStr ''u1'',
                  body = JObj [(''email_confirmed_at'', JStr ''2025-10-01T12:00:00Z'')]\<rparr>]\<rparr>"
  by code_simp

section \<open>Properties of the fixer\<close>

text \<open>
  Claim C1. When the list call succeeds and yields a list of records, the update calls
  of the run are those of its records, in the order of the list: exactly one call for
  a record that is unconfirmed (a mapping whose \<^verbatim>\<open>email_confirmed_at\<close> is absent,
  null or empty), addressed to that record's identifier, and no call for any other
  record, so none for a confirmed one. The body of every call sets
  \<^verbatim>\<open>email_confirmed_at\<close>, and nothing but it, to an ISO 8601 timestamp that ends in
  \<^verbatim>\<open>Z\<close>.
\<close>

theorem fixer_updates_exactly_the_unconfirmed:
  assumes "status_code response = 200" and "json_body response = Some data"
    and "fetched_users data = JArr users" and "\<forall>k. valid_datetime (clock k)"
  shows "updates (fix_email_confirmation response server clock) =
           concat (map (\<lambda>(i, u).
                          if unconfirmed u then
                            [confirm_request (clock (length (filter unconfirmed (take i users))))
                               (record_id u)]
                          else [])
                       (enumerate 0 users)) \<and>
         (\<forall>r \<in> set (updates (fix_email_confirmation response server clock)).
            \<exists>stamp. body r = JObj [(''email_confirmed_at'', JStr stamp)] \<and>
                    iso8601_utc stamp \<and> last stamp = CHR ''Z'')"
proof -
  have upd: "updates (fix_email_confirmation response server clock) =
           map (\<lambda>(k, u). confirm_request (clock k) (record_id u))
               (enumerate 0 (filter unconfirmed users))"
    using assms(1-3) by (rule fix_run_updates)
  have "\<exists>stamp. body (confirm_request (clock k) v) = JObj [(''email_confirmed_at'', JStr stamp)] \<and>
                iso8601_utc stamp \<and> last stamp = CHR ''Z''" for k v
    using assms(4) by (simp add: confirm_request_def isoformat_iso8601)
  then have shape: "\<forall>r \<in> set (updates (fix_email_confirmation response server clock)).
            \<exists>stamp. body r = JObj [(''email_confirmed_at'', JStr stamp)] \<and>
                    iso8601_utc stamp \<and> last stamp = CHR ''Z''"
    unfolding upd by auto
  from upd shape show ?thesis
    by (simp only: per_record_calls simp_thms)
qed

text \<open>
  The example of the specification: one call, for \<^verbatim>\<open>u1\<close>, and none for \<^verbatim>\<open>u2\<close>.
\<close>

theorem fixer_updates_exactly_the_unconfirmed_witness:
  "status_code (listing (JObj [(''users'', JArr two_users)])) = 200 \<and>
   json_body (listing (JObj [(''users'', JArr two_users)])) =
     Some (JObj [(''users'', JArr two_users)]) \<and>
   fetched_users (JObj [(''users'', JArr two_users)]) = JArr two_users \<and>
   (\<forall>k. valid_datetime (noon k)) \<and>
   updates (fix_email_confirmation (listing (JObj [(''users'', JArr two_users)])) accepting noon) =
     [\<lparr>path_user_id = JStr ''u1'',
       body = JObj [(''email_confirmed_at'', JStr ''2025-10-01T12:00:00Z'')]\<rparr>]"
proof -
  have h1: "status_code (listing (JObj [(''users'', JArr two_users)])) = 200"
    by (simp add: listing_def)
  have h2: "json_body (listing (JObj [(''users'', JArr two_users)])) =
      Some (JObj [(''users'', JArr two_users)])"
    by (simp add: listing_def)
  have h3: "fetched_users (JObj [(''users'', JArr two_users)]) = JArr two_users"
    by (simp add: fetched_users_def dict_get_default_def)
  have h4: "\<forall>k. valid_datetime (noon k)"
    by (simp add: valid_datetime_def noon_def)
  have ev: "concat (map (\<lambda>(i, u).
                          if unconfirmed u then
                            [confirm_request (noon (length (filter unconfirmed (take i two_users))))
                               (record_id u)]
                          else [])
                       (enumerate 0 two_users)) =
     [\<lparr>path_user_id = JStr ''u1'',
       body = JObj [(''email_confirmed_at'', JStr ''2025-10-01T12:00:00Z'')]\<rparr>]"
    by code_simp
  from fixer_updates_exactly_the_unconfirmed [OF h1 h2 h3 h4, of accepting]
  have "updates (fix_email_confirmation (listing (JObj [(''users'', JArr two_users)]))
                   accepting noon) =
     [\<lparr>path_user_id = JStr ''u1'',
       body = JObj [(''email_confirmed_at'', JStr ''2025-10-01T12:00:00Z'')]\<rparr>]"
    by (simp only: ev)
  with h1 h2 h3 h4 show ?thesis by (simp only: simp_thms)
qed

text \<open>
  Claim C2. When the list call succeeds and yields a list of records, the run returns
  with counters whose sum \<^verbatim>\<open>fixed_count + already_confirmed + errors\<close> is the number
  of records that are mappings; the records that are not mappings are exactly those the
  warnings name, and they are not counted.
\<close>

theorem tally_counts_processed_records:
  assumes "status_code response = 200" and "json_body response = Some data"
    and "fetched_users data = JArr users"
  shows "(\<exists>t. outcome (fix_email_confirmation response server clock) = Inr (Some t) \<and>
              fixed_count t + already_confirmed t + errors t = count is_dict users) \<and>
         warned (stdout (fix_email_confirmation response server clock)) =
           filter (\<lambda>u. \<not> is_dict u) users"
  using fix_run_tally [OF assms, of server clock] fix_run_warned [OF assms, of server clock]
  by simp

theorem tally_counts_processed_records_witness:
  "status_code (listing (JArr odd_users)) = 200 \<and>
   json_body (listing (JArr odd_users)) = Some (JArr odd_users) \<and>
   fetched_users (JArr odd_users) = JArr odd_users \<and>
   (\<exists>t. outcome (fix_email_confirmation (listing (JArr odd_users)) rejecting noon) =
          Inr (Some t) \<and>
        fixed_count t + already_confirmed t + errors t = 3) \<and>
   warned (stdout (fix_email_confirmation (listing (JArr odd_users)) rejecting noon)) =
     [JStr ''stray'']"
proof -
  have h1: "status_code (listing (JArr odd_users)) = 200"
    by (simp add: listing_def)
  have h2: "json_body (listing (JArr odd_users)) = Some (JArr odd_users)"
    by (simp add: listing_def)
  have h3: "fetched_users (JArr odd_users) = JArr odd_users"
    by (simp add: fetched_users_def)
  have c: "count is_dict odd_users = 3"
    by (simp add: count_def odd_users_def)
  have w: "filter (\<lambda>u. \<not> is_dict u) odd_users = [JStr ''stray'']"
    by (simp add: odd_users_def)
  from tally_counts_processed_records [OF h1 h2 h3, of rejecting noon] h1 h2 h3
  show ?thesis by (simp only: c w simp_thms)
qed

text \<open>
  Claim C4. When the list call answers with a status other than 200, the run prints the
  failure and returns at once: it issues no update call, and ends before the counters
  are even assigned, so that none is ever incremented and no summary is printed.
\<close>

theorem fetch_failure_aborts_fixer:
  assumes "status_code response \<noteq> 200"
  shows "fix_email_confirmation response server clock =
           \<lparr>outcome = Inr None,
            stdout = [Fetching, FetchFailed (body_text response)],
            updates = []\<rparr>"
  using assms by (simp add: fix_email_confirmation_def)

theorem fetch_failure_aborts_fixer_witness:
  "status_code \<lparr>status_code = 500, body_text = ''down'', json_body = None\<rparr> \<noteq> 200 \<and>
   fix_email_confirmation \<lparr>status_code = 500, body_text = ''down'', json_body = None\<rparr>
       accepting noon =
     \<lparr>outcome = Inr None, stdout = [Fetching, FetchFailed ''down''], updates = []\<rparr>"
proof -
  have h: "status_code \<lparr>status_code = 500, body_text = ''down'', json_body = None\<rparr> \<noteq> 200"
    by simp
  from fetch_failure_aborts_fixer [OF h, of accepting noon] h show ?thesis by simp
qed

text \<open>
  Claim C8. A record that is a mapping without \<^verbatim>\<open>id\<close> and whose confirmation field is
  absent or empty is not guarded against: the run still issues the update call for it,
  in its turn, and the identifier interpolated into the path of that call is the
  \<^verbatim>\<open>None\<close> that the lookup of the missing \<^verbatim>\<open>id\<close> returned.
\<close>

theorem fixer_updates_record_without_id:
  assumes "status_code response = 200" and "json_body response = Some data"
    and "fetched_users data = JArr (pre @ JObj d # post)"
    and "map_of d ''id'' = None" and "\<not> truthy (dict_get d ''email_confirmed_at'')"
  shows "length (filter unconfirmed pre) <
           length (updates (fix_email_confirmation response server clock)) \<and>
         updates (fix_email_confirmation response server clock) ! length (filter unconfirmed pre) =
           confirm_request (clock (length (filter unconfirmed pre))) JNull"
proof -
  have u: "unconfirmed (JObj d)" using assms(5) by simp
  have i: "record_id (JObj d) = JNull"
    using assms(4) by (simp add: dict_get_def dict_get_default_def)
  let ?f = "\<lambda>(k, u). confirm_request (clock k) (record_id u)"
  have "?f (length (filter unconfirmed pre), JObj d) =
          confirm_request (clock (length (filter unconfirmed pre))) JNull"
    by (simp only: prod.case i)
  with nth_enumerated_filter [of unconfirmed "JObj d" pre ?f post, OF u]
  show ?thesis
    unfolding fix_run_updates [OF assms(1-3)] by (simp only:)
qed

theorem fixer_updates_record_without_id_witness:
  "status_code (listing (JArr odd_users)) = 200 \<and>
   json_body (listing (JArr odd_users)) = Some (JArr odd_users) \<and>
   fetched_users (JArr odd_users) =
     JArr ([JStr ''stray''] @ JObj [(''email'', JStr ''a@x.com'')] #
           [JObj [(''id'', JStr ''u2''), (''email'', JStr ''b@x.com''),
                  (''email_confirmed_at'', JStr ''2024-01-01T00:00:00Z'')],
            JObj [(''id'', JStr ''u3'')]]) \<and>
   map_of [(''email'', JStr ''a@x.com'')] ''id'' = None \<and>
   \<not> truthy (dict_get [(''email'', JStr ''a@x.com'')] ''email_confirmed_at'') \<and>
   path_user_id (updates (fix_email_confirmation (listing (JArr odd_users)) accepting noon) ! 0) =
     JNull"
proof -
  have h1: "status_code (listing (JArr odd_users)) = 200"
    by (simp add: listing_def)
  have h2: "json_body (listing (JArr odd_users)) = Some (JArr odd_users)"
    by (simp add: listing_def)
  have h3: "fetched_users (JArr odd_users) =
     JArr ([JStr ''stray''] @ JObj [(''email'', JStr ''a@x.com'')] #
           [JObj [(''id'', JStr ''u2''), (''email'', JStr ''b@x.com''),
                  (''email_confirmed_at'', JStr ''2024-01-01T00:00:00Z'')],
            JObj [(''id'', JStr ''u3'')]])"
    by (simp add: fetched_users_def odd_users_def)
  have h4: "map_of [(''email'', JStr ''a@x.com'')] ''id'' = None"
    by simp
  have h5: "\<not> truthy (dict_get [(''email'', JStr ''a@x.com'')] ''email_confirmed_at'')"
    by (simp add: dict_get_def dict_get_default_def)
  from fixer_updates_record_without_id [OF h1 h2 h3 h4 h5, of accepting noon]
  have "path_user_id
          (updates (fix_email_confirmation (listing (JArr odd_users)) accepting noon) ! 0) = JNull"
    by (simp add: confirm_request_def)
  with h1 h2 h3 h4 h5 show ?thesis by (simp only: simp_thms)
qed

text \<open>
  Claim C10. A record that is a mapping without \<^verbatim>\<open>email\<close> is not skipped: no warning
  names it, it is reported under the placeholder \<^verbatim>\<open>unknown\<close>, it counts among the
  records the counters add up to, and when its confirmation field is absent or empty
  the run issues the update call for it, in its turn.
\<close>

theorem fixer_processes_record_without_email:
  assumes "status_code response = 200" and "json_body response = Some data"
    and "fetched_users data = JArr (pre @ JObj d # post)"
    and "map_of d ''email'' = None"
  shows "(\<exists>t. outcome (fix_email_confirmation response server clock) = Inr (Some t) \<and>
              fixed_count t + already_confirmed t + errors t =
                count is_dict pre + 1 + count is_dict post) \<and>
         JObj d \<notin> set (warned (stdout (fix_email_confirmation response server clock))) \<and>
         (if unconfirmed (JObj d) then
            Fixing (JStr ''unknown'') \<in>
              set (stdout (fix_email_confirmation response server clock)) \<and>
            length (filter unconfirmed pre) <
              length (updates (fix_email_confirmation response server clock)) \<and>
            updates (fix_email_confirmation response server clock) !
                length (filter unconfirmed pre) =
              confirm_request (clock (length (filter unconfirmed pre))) (dict_get d ''id'')
          else
            AlreadyConfirmed (JStr ''unknown'') \<in>
              set (stdout (fix_email_confirmation response server clock)))"
proof -
  have e: "dict_get_default d ''email'' (JStr ''unknown'') = JStr ''unknown''"
    using assms(4) by (simp add: dict_get_default_def)
  have a: "\<exists>t. outcome (fix_email_confirmation response server clock) = Inr (Some t) \<and>
              fixed_count t + already_confirmed t + errors t =
                count is_dict pre + 1 + count is_dict post"
    using fix_run_tally [OF assms(1-3), of server clock] by (auto simp: count_def)
  have b: "JObj d \<notin> set (warned (stdout (fix_email_confirmation response server clock)))"
    by (simp add: fix_run_warned [OF assms(1-3)])
  have c: "(if unconfirmed (JObj d) then Fixing (JStr ''unknown'')
          else AlreadyConfirmed (JStr ''unknown''))
         \<in> set (stdout (fix_email_confirmation response server clock))"
    using fix_run_reports [OF assms(1-3), of server clock] by (simp only: e)
  have d: "unconfirmed (JObj d) \<Longrightarrow>
     length (filter unconfirmed pre) <
              length (updates (fix_email_confirmation response server clock)) \<and>
            updates (fix_email_confirmation response server clock) !
                length (filter unconfirmed pre) =
              confirm_request (clock (length (filter unconfirmed pre))) (dict_get d ''id'')"
    unfolding fix_run_updates [OF assms(1-3)]
    using nth_enumerated_filter
      [of unconfirmed "JObj d" pre "\<lambda>(k, u). confirm_request (clock k) (record_id u)" post]
    by (simp only: prod.case record_id.simps)
  from a b c d show ?thesis by (simp del: unconfirmed.simps split: if_splits)
qed

theorem fixer_processes_record_without_email_witness:
  "status_code (listing (JArr odd_users)) = 200 \<and>
   json_body (listing (JArr odd_users)) = Some (JArr odd_users) \<and>
   fetched_users (JArr odd_users) =
     JArr ([JStr ''stray'', JObj [(''email'', JStr ''a@x.com'')],
            JObj [(''id'', JStr ''u2''), (''email'', JStr ''b@x.com''),
                  (''email_confirmed_at'', JStr ''2024-01-01T00:00:00Z'')]] @
           JObj [(''id'', JStr ''u3'')] # []) \<and>
   map_of [(''id'', JStr ''u3'')] ''email'' = None \<and>
   Fixing (JStr ''unknown'') \<in>
     set (stdout (fix_email_confirmation (listing (JArr odd_users)) accepting noon)) \<and>
   path_user_id (updates (fix_email_confirmation (listing (JArr odd_users)) accepting noon) ! 1) =
     JStr ''u3''"
proof -
  have h1: "status_code (listing (JArr odd_users)) = 200"
    by (simp add: listing_def)
  have h2: "json_body (listing (JArr odd_users)) = Some (JArr odd_users)"
    by (simp add: listing_def)
  have h3: "fetched_users (JArr odd_users) =
     JArr ([JStr ''stray'', JObj [(''email'', JStr ''a@x.com'')],
            JObj [(''id'', JStr ''u2''), (''email'', JStr ''b@x.com''),
                  (''email_confirmed_at'', JStr ''2024-01-01T00:00:00Z'')]] @
           JObj [(''id'', JStr ''u3'')] # [])"
    by (simp add: fetched_users_def odd_users_def)
  have h4: "map_of [(''id'', JStr ''u3'')] ''email'' = None"
    by simp
  from fixer_processes_record_without_email [OF h1 h2 h3 h4, of accepting noon]
  have "Fixing (JStr ''unknown'') \<in>
     set (stdout (fix_email_confirmation (listing (JArr odd_users)) accepting noon)) \<and>
   path_user_id (updates (fix_email_confirmation (listing (JArr odd_users)) accepting noon) ! 1) =
     JStr ''u3''"
    by (simp add: confirm_request_def dict_get_def dict_get_default_def)
  with h1 h2 h3 h4 show ?thesis by (simp only: simp_thms)
qed

section \<open>The scan of the password reset tool\<close>

lemma email_matches_iff:
  "email_matches email u \<longleftrightarrow> (\<exists>d. u = JObj d \<and> map_of d ''email'' = Some (JStr email))"
  by (cases u) (auto simp: dict_get_def dict_get_default_def split: option.splits)

lemma email_matches_truthy: "email_matches email u \<Longrightarrow> truthy u \<and> is_dict u"
  by (cases u) (auto simp: dict_get_def dict_get_default_def split: option.splits)

lemma find_target_none:
  "filter (email_matches email) users = [] \<Longrightarrow> find_target email users = JNull"
  by (induction users) (simp_all split: if_splits)

lemma find_target_first:
  "\<forall>p \<in> set pre. \<not> email_matches email p \<Longrightarrow> email_matches email u \<Longrightarrow>
     find_target email (pre @ u # post) = u"
  by (induction pre) simp_all

lemma first_match_exists:
  assumes "filter P xs \<noteq> []"
  shows "\<exists>pre u post. xs = pre @ u # post \<and> (\<forall>p \<in> set pre. \<not> P p) \<and> P u"
proof -
  from assms have "\<exists>x \<in> set xs. P x" by (simp add: filter_empty_conv)
  then show ?thesis by (metis split_list_first_prop)
qed

text \<open>On a fetched list the run depends on the result of the scan alone.\<close>

lemma reset_run_list:
  assumes "status_code response = 200" and "json_body response = Some data"
    and "listed_users data = Some (JArr users)"
  shows "reset_password email new_password response server =
           (let target_user = find_target email users
            in if \<not> truthy target_user then
                 \<lparr>outcome = Inr (), stdout = [Resetting email, UserNotFound email], updates = []\<rparr>
               else
                 \<lparr>outcome = Inr (),
                  stdout = [Resetting email, FoundUserId (record_id target_user)] @
                    reset_report email new_password
                      (server 0 (password_request (record_id target_user) new_password)),
                  updates = [password_request (record_id target_user) new_password]\<rparr>)"
proof -
  have "find_target email users = JNull \<or> (\<exists>d. find_target email users = JObj d)"
    by (induction users) (auto simp: email_matches_iff)
  with assms show ?thesis
    by (auto simp: reset_password_def Let_def dict_get_def)
qed

lemma reset_run_no_match:
  assumes "status_code response = 200" and "json_body response = Some data"
    and "listed_users data = Some (JArr users)"
    and "filter (email_matches email) users = []"
  shows "reset_password email new_password response server =
           \<lparr>outcome = Inr (), stdout = [Resetting email, UserNotFound email], updates = []\<rparr>"
  using reset_run_list [OF assms(1-3)] find_target_none [OF assms(4)] by (simp add: Let_def)

lemma reset_run_first_match:
  assumes "status_code response = 200" and "json_body response = Some data"
    and "listed_users data = Some (JArr (pre @ u # post))"
    and "\<forall>p \<in> set pre. \<not> email_matches email p" and "email_matches email u"
  shows "reset_password email new_password response server =
           \<lparr>outcome = Inr (),
            stdout = [Resetting email, FoundUserId (record_id u)] @
              reset_report email new_password
                (server 0 (password_request (record_id u) new_password)),
            updates = [password_request (record_id u) new_password]\<rparr>"
  using reset_run_list [OF assms(1-3)] find_target_first [OF assms(4,5)]
    email_matches_truthy [OF assms(5)]
  by (simp add: Let_def)

lemma reset_at_most_one:
  "length (updates (reset_password email new_password response server)) \<le> 1"
  by (simp add: reset_password_def Let_def split: option.splits sum.splits)

section \<open>Properties of the password reset tool\<close>

text \<open>
  Claim C3, as the code has it. The run issues at most one update call, whatever it is
  given. When the list call succeeds and yields a list of records, it issues the call
  exactly when at least one record matches the target email; with no matching record
  it issues none. (With several matching records it still issues the one call, for the
  first of them.)
\<close>

theorem reset_updates_iff_some_match:
  "length (updates (reset_password email new_password response server)) \<le> 1 \<and>
   (status_code response = 200 \<and> json_body response = Some data \<and>
    listed_users data = Some (JArr users) \<longrightarrow>
      (updates (reset_password email new_password response server) \<noteq> [] \<longleftrightarrow>
         1 \<le> count (email_matches email) users))"
proof -
  have "updates (reset_password email new_password response server) \<noteq> [] \<longleftrightarrow>
         1 \<le> count (email_matches email) users"
    if h: "status_code response = 200" "json_body response = Some data"
      "listed_users data = Some (JArr users)"
  proof (cases "filter (email_matches email) users = []")
    case True
    with reset_run_no_match [OF h True] show ?thesis by (simp add: count_def)
  next
    case False
    then obtain pre u post where "users = pre @ u # post"
      "\<forall>p \<in> set pre. \<not> email_matches email p" "email_matches email u"
      using first_match_exists by blast
    with reset_run_first_match [of response data pre u post email] h False
    show ?thesis by (simp add: count_def)
  qed
  with reset_at_most_one show ?thesis by blast
qed

theorem reset_updates_iff_some_match_witness:
  "status_code (listing (JArr two_users)) = 200 \<and>
   json_body (listing (JArr two_users)) = Some (JArr two_users) \<and>
   listed_users (JArr two_users) = Some (JArr two_users) \<and>
   1 \<le> count (email_matches ''b@x.com'') two_users \<and>
   updates (reset_password ''b@x.com'' ''Test123456!'' (listing (JArr two_users)) accepting) \<noteq> []"
proof -
  have h1: "status_code (listing (JArr two_users)) = 200"
    by (simp add: listing_def)
  have h2: "json_body (listing (JArr two_users)) = Some (JArr two_users)"
    by (simp add: listing_def)
  have h3: "listed_users (JArr two_users) = Some (JArr two_users)"
    by (simp add: listed_users_def)
  have c: "1 \<le> count (email_matches ''b@x.com'') two_users"
    by code_simp
  from reset_updates_iff_some_match
         [of "''b@x.com''" "''Test123456!''" "listing (JArr two_users)" accepting
             "JArr two_users" two_users]
       h1 h2 h3 c
  show ?thesis by (simp only: simp_thms)
qed

text \<open>
  Two records carry the target email: the claim as written wants no update call, the
  run issues one.
\<close>

theorem reset_two_matches_still_updates:
  "count (email_matches ''a@x.com'') twins = 2 \<and>
   length (updates (reset_password ''a@x.com'' ''Test123456!'' (listing (JArr twins))
                      accepting)) = 1"
  by code_simp

text \<open>
  Claim C6. When the list call succeeds and yields a list of records, and \<open>u\<close> is the
  first record of the list that is a mapping whose \<^verbatim>\<open>email\<close> is the target string
  itself, the scan selects \<open>u\<close> and the run issues a single update call, addressed to
  the identifier of \<open>u\<close>, whose body holds the new password and nothing else.
\<close>

theorem reset_selects_first_exact_match:
  assumes "status_code response = 200" and "json_body response = Some data"
    and "listed_users data = Some (JArr (pre @ u # post))"
    and "\<forall>p \<in> set pre. \<not> email_matches email p" and "email_matches email u"
  shows "find_target email (pre @ u # post) = u \<and>
         (\<exists>d. u = JObj d \<and> map_of d ''email'' = Some (JStr email)) \<and>
         outcome (reset_password email new_password response server) = Inr () \<and>
         updates (reset_password email new_password response server) =
           [\<lparr>path_user_id = record_id u, body = JObj [(''password'', JStr new_password)]\<rparr>]"
  using find_target_first [OF assms(4,5)] assms(5)
    reset_run_first_match [OF assms, of new_password server]
  by (simp add: email_matches_iff password_request_def)

theorem reset_selects_first_exact_match_witness:
  "status_code (listing (JObj [(''users'', JArr two_users)])) = 200 \<and>
   json_body (listing (JObj [(''users'', JArr two_users)])) =
     Some (JObj [(''users'', JArr two_users)]) \<and>
   listed_users (JObj [(''users'', JArr two_users)]) =
     Some (JArr ([JObj [(''id'', JStr ''u1''), (''email'', JStr ''a@x.com''),
                        (''email_confirmed_at'', JNull)]] @
                 JObj [(''id'', JStr ''u2''), (''email'', JStr ''b@x.com''),
                       (''email_confirmed_at'', JStr ''2024-01-01T00:00:00Z'')] # [])) \<and>
   \<not> email_matches ''b@x.com''
       (JObj [(''id'', JStr ''u1''), (''email'', JStr ''a@x.com''),
              (''email_confirmed_at'', JNull)]) \<and>
   email_matches ''b@x.com''
     (JObj [(''id'', JStr ''u2''), (''email'', JStr ''b@x.com''),
            (''email_confirmed_at'', JStr ''2024-01-01T00:00:00Z'')]) \<and>
   updates (reset_password ''b@x.com'' ''Test123456!''
              (listing (JObj [(''users'', JArr two_users)])) accepting) =
     [\<lparr>path_user_id = JStr ''u2'', body = JObj [(''password'', JStr ''Test123456!'')]\<rparr>]"
proof -
  have h1: "status_code (listing (JObj [(''users'', JArr two_users)])) = 200"
    by (simp add: listing_def)
  have h2: "json_body (listing (JObj [(''users'', JArr two_users)])) =
      Some (JObj [(''users'', JArr two_users)])"
    by (simp add: listing_def)
  have h3: "listed_users (JObj [(''users'', JArr two_users)]) =
     Some (JArr ([JObj [(''id'', JStr ''u1''), (''email'', JStr ''a@x.com''),
                        (''email_confirmed_at'', JNull)]] @
                 JObj [(''id'', JStr ''u2''), (''email'', JStr ''b@x.com''),
                       (''email_confirmed_at'', JStr ''2024-01-01T00:00:00Z'')] # []))"
    by (simp add: listed_users_def dict_get_default_def two_users_def)
  have n: "\<not> email_matches ''b@x.com''
       (JObj [(''id'', JStr ''u1''), (''email'', JStr ''a@x.com''),
              (''email_confirmed_at'', JNull)])"
    by (simp add: dict_get_def dict_get_default_def)
  then have h4: "\<forall>p \<in> set [JObj [(''id'', JStr ''u1''), (''email'', JStr ''a@x.com''),
                                  (''email_confirmed_at'', JNull)]].
                   \<not> email_matches ''b@x.com'' p"
    by simp
  have h5: "email_matches ''b@x.com''
     (JObj [(''id'', JStr ''u2''), (''email'', JStr ''b@x.com''),
            (''email_confirmed_at'', JStr ''2024-01-01T00:00:00Z'')])"
    by (simp add: dict_get_def dict_get_default_def)
  have i: "record_id (JObj [(''id'', JStr ''u2''), (''email'', JStr ''b@x.com''),
            (''email_confirmed_at'', JStr ''2024-01-01T00:00:00Z'')]) = JStr ''u2''"
    by (simp add: dict_get_def dict_get_default_def)
  from reset_selects_first_exact_match [OF h1 h2 h3 h4 h5, of "''Test123456!''" accepting]
  have "updates (reset_password ''b@x.com'' ''Test123456!''
                   (listing (JObj [(''users'', JArr two_users)])) accepting) =
     [\<lparr>path_user_id = JStr ''u2'', body = JObj [(''password'', JStr ''Test123456!'')]\<rparr>]"
    by (simp only: i)
  with h1 h2 h3 n h5 show ?thesis by (simp only: simp_thms)
qed

text \<open>
  Claim C9. When the first record that matches the target email has no \<^verbatim>\<open>id\<close>, the
  run does not stop: it prints the identifier it found, \<^verbatim>\<open>None\<close>, issues the update
  call with that \<^verbatim>\<open>None\<close> interpolated into the path, and returns.
\<close>

theorem reset_updates_match_without_id:
  assumes "status_code response = 200" and "json_body response = Some data"
    and "listed_users data = Some (JArr (pre @ JObj d # post))"
    and "\<forall>p \<in> set pre. \<not> email_matches email p"
    and "dict_get d ''email'' = JStr email" and "map_of d ''id'' = None"
  shows "reset_password email new_password response server =
           \<lparr>outcome = Inr (),
            stdout = [Resetting email, FoundUserId JNull] @
              reset_report email new_password (server 0 (password_request JNull new_password)),
            updates = [password_request JNull new_password]\<rparr> \<and>
         path_user_id (password_request JNull new_password) = JNull"
proof -
  have m: "email_matches email (JObj d)" using assms(5) by simp
  have i: "record_id (JObj d) = JNull"
    using assms(6) by (simp add: dict_get_def dict_get_default_def)
  show ?thesis
    unfolding reset_run_first_match [OF assms(1-4) m, of new_password server] i
    by (simp add: password_request_def)
qed

theorem reset_updates_match_without_id_witness:
  "status_code (listing (JArr odd_users)) = 200 \<and>
   json_body (listing (JArr odd_users)) = Some (JArr odd_users) \<and>
   listed_users (JArr odd_users) =
     Some (JArr ([JStr ''stray''] @ JObj [(''email'', JStr ''a@x.com'')] #
                 [JObj [(''id'', JStr ''u2''), (''email'', JStr ''b@x.com''),
                        (''email_confirmed_at'', JStr ''2024-01-01T00:00:00Z'')],
                  JObj [(''id'', JStr ''u3'')]])) \<and>
   \<not> email_matches ''a@x.com'' (JStr ''stray'') \<and>
   dict_get [(''email'', JStr ''a@x.com'')] ''email'' = JStr ''a@x.com'' \<and>
   map_of [(''email'', JStr ''a@x.com'')] ''id'' = None \<and>
   updates (reset_password ''a@x.com'' ''Test123456!'' (listing (JArr odd_users)) rejecting) =
     [\<lparr>path_user_id = JNull, body = JObj [(''password'', JStr ''Test123456!'')]\<rparr>]"
proof -
  have h1: "status_code (listing (JArr odd_users)) = 200"
    by (simp add: listing_def)
  have h2: "json_body (listing (JArr odd_users)) = Some (JArr odd_users)"
    by (simp add: listing_def)
  have h3: "listed_users (JArr odd_users) =
     Some (JArr ([JStr ''stray''] @ JObj [(''email'', JStr ''a@x.com'')] #
                 [JObj [(''id'', JStr ''u2''), (''email'', JStr ''b@x.com''),
                        (''email_confirmed_at'', JStr ''2024-01-01T00:00:00Z'')],
                  JObj [(''id'', JStr ''u3'')]]))"
    by (simp add: listed_users_def odd_users_def)
  have n: "\<not> email_matches ''a@x.com'' (JStr ''stray'')"
    by simp
  then have h4: "\<forall>p \<in> set [JStr ''stray'']. \<not> email_matches ''a@x.com'' p"
    by simp
  have h5: "dict_get [(''email'', JStr ''a@x.com'')] ''email'' = JStr ''a@x.com''"
    by (simp add: dict_get_def dict_get_default_def)
  have h6: "map_of [(''email'', JStr ''a@x.com'')] ''id'' = None"
    by simp
  from reset_updates_match_without_id [OF h1 h2 h3 h4 h5 h6, of "''Test123456!''" rejecting]
  have "updates (reset_password ''a@x.com'' ''Test123456!'' (listing (JArr odd_users)) rejecting) =
     [\<lparr>path_user_id = JNull, body = JObj [(''password'', JStr ''Test123456!'')]\<rparr>]"
    by (simp add: password_request_def)
  with h1 h2 h3 n h5 h6 show ?thesis by (simp only: simp_thms)
qed

section \<open>Unexpected shapes of the listing\<close>

text \<open>
  Claim C5. When the parsed body of the list response is neither a mapping nor a list,
  neither tool raises and neither issues an update call. With status 200 the fixer goes
  on with the empty list, finds no user and prints a summary of zeros; the reset tool
  prints the format error and returns.
\<close>

theorem unexpected_body_shape_is_noop:
  assumes "json_body response = Some data" and "\<not> is_dict data" and "\<not> is_list data"
  shows "updates (fix_email_confirmation response server clock) = [] \<and>
         (\<exists>v. outcome (fix_email_confirmation response server clock) = Inr v) \<and>
         updates (reset_password email new_password response server) = [] \<and>
         outcome (reset_password email new_password response server) = Inr () \<and>
         (status_code response = 200 \<longrightarrow>
            fix_email_confirmation response server clock =
              \<lparr>outcome = Inr (Some \<lparr>fixed_count = 0, already_confirmed = 0, errors = 0\<rparr>),
               stdout = [Fetching, DebugResponseType (type_of data), FoundUsers 0, BlankRule,
                         SummaryTitle, SummaryFixed 0, SummaryAlready 0, Rule, FixComplete],
               updates = []\<rparr> \<and>
            reset_password email new_password response server =
              \<lparr>outcome = Inr (),
               stdout = [Resetting email, UnexpectedFormat (type_of data)],
               updates = []\<rparr>)"
proof -
  have u: "fetched_users data = JArr []" and l: "listed_users data = None"
    using assms(2,3) by (cases data; simp add: fetched_users_def listed_users_def)+
  have f: "fix_email_confirmation response server clock =
              \<lparr>outcome = Inr (Some \<lparr>fixed_count = 0, already_confirmed = 0, errors = 0\<rparr>),
               stdout = [Fetching, DebugResponseType (type_of data), FoundUsers 0, BlankRule,
                         SummaryTitle, SummaryFixed 0, SummaryAlready 0, Rule, FixComplete],
               updates = []\<rparr>"
    if "status_code response = 200"
    using that assms(1) u
    by (simp add: fix_email_confirmation_def debug_first_item_def counters_zero_def
        summary_def tally.truncate_def)
  have r: "reset_password email new_password response server =
              \<lparr>outcome = Inr (),
               stdout = [Resetting email, UnexpectedFormat (type_of data)],
               updates = []\<rparr>"
    if "status_code response = 200"
    using that assms(1) l by (simp add: reset_password_def)
  have f': "fix_email_confirmation response server clock =
      \<lparr>outcome = Inr None, stdout = [Fetching, FetchFailed (body_text response)], updates = []\<rparr>"
    if "status_code response \<noteq> 200"
    using that by (simp add: fix_email_confirmation_def)
  have r': "reset_password email new_password response server =
      \<lparr>outcome = Inr (), stdout = [Resetting email, FetchFailed (body_text response)],
       updates = []\<rparr>"
    if "status_code response \<noteq> 200"
    using that by (simp add: reset_password_def)
  show ?thesis
  proof (cases "status_code response = 200")
    case True
    with f r show ?thesis by simp
  next
    case False
    with f' r' show ?thesis by simp
  qed
qed

theorem unexpected_body_shape_is_noop_witness:
  "json_body (listing (JStr ''maintenance'')) = Some (JStr ''maintenance'') \<and>
   \<not> is_dict (JStr ''maintenance'') \<and> \<not> is_list (JStr ''maintenance'') \<and>
   status_code (listing (JStr ''maintenance'')) = 200 \<and>
   fix_email_confirmation (listing (JStr ''maintenance'')) accepting noon =
     \<lparr>outcome = Inr (Some \<lparr>fixed_count = 0, already_confirmed = 0, errors = 0\<rparr>),
      stdout = [Fetching, DebugResponseType TStr, FoundUsers 0, BlankRule,
                SummaryTitle, SummaryFixed 0, SummaryAlready 0, Rule, FixComplete],
      updates = []\<rparr> \<and>
   reset_password ''admin@test.com'' ''Test123456!'' (listing (JStr ''maintenance'')) accepting =
     \<lparr>outcome = Inr (),
      stdout = [Resetting ''admin@test.com'', UnexpectedFormat TStr],
      updates = []\<rparr>"
proof -
  have h1: "json_body (listing (JStr ''maintenance'')) = Some (JStr ''maintenance'')"
    by (simp add: listing_def)
  have h2: "\<not> is_dict (JStr ''maintenance'')"
    by simp
  have h3: "\<not> is_list (JStr ''maintenance'')"
    by simp
  have h4: "status_code (listing (JStr ''maintenance'')) = 200"
    by (simp add: listing_def)
  from unexpected_body_shape_is_noop
         [OF h1 h2 h3, of accepting noon "''admin@test.com''" "''Test123456!''"] h1 h2 h3 h4
  show ?thesis by simp
qed

section \<open>Properties of the login smoke test\<close>

lemma success_body_fields:
  assumes "success_body b"
  shows "\<exists>d token u. b = Some (JObj d) \<and> map_of d ''access_token'' = Some (JStr token) \<and>
           map_of d ''user'' = Some (JObj u)"
proof (cases b)
  case None
  with assms show ?thesis by simp
next
  case (Some data)
  with assms obtain d where d: "data = JObj d"
    by (cases data) simp_all
  from assms Some d show ?thesis
    by (auto split: option.splits json.splits)
qed

text \<open>
  Claim C7. For every email and password, and every answer of the token endpoint, the
  function returns, and what it returns is \<^verbatim>\<open>True\<close> if and only if the status of the
  answer is 200.
\<close>

theorem login_true_iff_status_200:
  assumes "token_response response"
  shows "outcome (test_login email password response) = Inr (status_code response = 200) \<and>
         (outcome (test_login email password response) = Inr True \<longleftrightarrow>
            status_code response = 200)"
proof (cases "status_code response = 200")
  case False
  then show ?thesis by (simp add: test_login_def Let_def)
next
  case True
  with assms have "success_body (json_body response)"
    by (simp add: token_response_def)
  then obtain d token u where "json_body response = Some (JObj d)"
    and "map_of d ''access_token'' = Some (JStr token)" and "map_of d ''user'' = Some (JObj u)"
    using success_body_fields by blast
  with True show ?thesis
    by (simp add: test_login_def Let_def dict_get_default_def)
qed

text \<open>A successful login gives \<^verbatim>\<open>True\<close>, a refused one \<^verbatim>\<open>False\<close>.\<close>

theorem login_true_iff_status_200_witness:
  "token_response logged_in \<and> status_code logged_in = 200 \<and>
   outcome (test_login ''admin@test.com'' ''Test123456!'' logged_in) = Inr True \<and>
   token_response refused \<and> status_code refused = 400 \<and>
   outcome (test_login ''admin@test.com'' ''Test123456!'' refused) = Inr False"
proof -
  have h1: "token_response logged_in"
    by (simp add: token_response_def logged_in_def)
  have s1: "status_code logged_in = 200"
    by (simp add: logged_in_def)
  have h2: "token_response refused"
    by (simp add: token_response_def refused_def)
  have s2: "status_code refused = 400"
    by (simp add: refused_def)
  from login_true_iff_status_200 [OF h1, of "''admin@test.com''" "''Test123456!''"]
    login_true_iff_status_200 [OF h2, of "''admin@test.com''" "''Test123456!''"]
    h1 s1 h2 s2
  show ?thesis by simp
qed

end
